theory Spec2Isabelle
  imports Complex_Main
begin

section \<open>Python values and the library functions the notebook calls\<close>

text \<open>
  The notebook \<^verbatim>\<open>python-black-scholes-merton.ipynb\<close> runs on Python 2.7 (its metadata says
  so, and it uses the \<^verbatim>\<open>print\<close> statement). Its numeric core is three pieces of code:
  the function \<^verbatim>\<open>bsm\<close> (defined twice: with \<^verbatim>\<open>math\<close> in cell 2, with \<^verbatim>\<open>numpy\<close> in
  cell 4), the Monte Carlo cell that computes \<^verbatim>\<open>presentOptionValue\<close>, and the function
  \<^verbatim>\<open>call\<close>.

  Numbers. A Python \<^verbatim>\<open>float\<close> is modelled as a real number: rounding and the finite range
  of the 64-bit format (overflow, underflow) are outside the model, and every statement
  below is a statement about this idealisation. A Python \<^verbatim>\<open>int\<close> is an \<open>int\<close>. The two
  are kept apart where the code treats them differently, which in this notebook is the
  operator \<^verbatim>\<open>/\<close> only: on two ints, Python 2 divides and rounds down.

  Exceptions are values: a computation returns \<open>Inl\<close> the exception or \<open>Inr\<close> its result.
  The not-a-number value that \<^verbatim>\<open>numpy.sqrt\<close> returns for a negative argument is \<open>None\<close>.
\<close>

datatype pyerror = ZeroDivisionError | ValueError

datatype pynum = PyInt int | PyFloat real

definition to_float :: "pynum \<Rightarrow> real" where
  \<comment> \<open>\<^verbatim>\<open>float(x)\<close>, and the coercion of an int operand in mixed arithmetic\<close>
  "to_float x = (case x of PyInt i \<Rightarrow> real_of_int i | PyFloat f \<Rightarrow> f)"

definition py_div :: "pynum \<Rightarrow> pynum \<Rightarrow> pyerror + pynum" where
  \<comment> \<open>\<^verbatim>\<open>a / b\<close> in Python 2: floor division on two ints, true division otherwise\<close>
  "py_div a b =
     (case (a, b) of
        (PyInt i, PyInt j) \<Rightarrow>
          if j = 0 then Inl ZeroDivisionError else Inr (PyInt (i div j))
      | _ \<Rightarrow>
          if to_float b = 0 then Inl ZeroDivisionError
          else Inr (PyFloat (to_float a / to_float b)))"

definition float_div :: "real \<Rightarrow> real \<Rightarrow> pyerror + real" where
  \<comment> \<open>\<^verbatim>\<open>a / b\<close> where an operand is a float\<close>
  "float_div a b = (if b = 0 then Inl ZeroDivisionError else Inr (a / b))"

definition math_sqrt :: "real \<Rightarrow> pyerror + real" where
  \<comment> \<open>\<^verbatim>\<open>math.sqrt\<close>: a negative argument is a math domain error\<close>
  "math_sqrt x = (if x < 0 then Inl ValueError else Inr (sqrt x))"

definition math_log :: "real \<Rightarrow> pyerror + real" where
  \<comment> \<open>\<^verbatim>\<open>math.log\<close>: an argument that is not positive is a math domain error\<close>
  "math_log x = (if x \<le> 0 then Inl ValueError else Inr (ln x))"

definition np_sqrt :: "real \<Rightarrow> real option" where
  \<comment> \<open>\<^verbatim>\<open>numpy.sqrt\<close>: a negative argument gives nan (and a warning), no exception\<close>
  "np_sqrt x = (if x < 0 then None else Some (sqrt x))"

definition py_sum :: "real list \<Rightarrow> real" where
  \<comment> \<open>the builtin \<^verbatim>\<open>sum\<close>: adds from the left, starting at 0\<close>
  "py_sum xs = foldl (+) 0 xs"

section \<open>The simulator\<close>

text \<open>
  Cell 2:
  \<^verbatim>\<open>
  def bsm(s_0, r, sigma, t, z):
      return s_0*math.exp((r-0.5*(sigma**2)*t+z*sigma*math.sqrt(t)))
  \<close>
  Cell 4 defines \<^verbatim>\<open>bsm\<close> again with \<^verbatim>\<open>np.exp\<close> and \<^verbatim>\<open>np.sqrt\<close> in place of the
  \<^verbatim>\<open>math\<close> functions; this second definition is the one the rest of the notebook calls,
  with an array of draws for \<^verbatim>\<open>z\<close>. numpy applies the expression to each entry of the
  array: \<open>bsm_entry\<close> is the expression at one draw, \<open>bsm\<close> is its broadcast.
  None of \<^verbatim>\<open>s_0\<close>, \<^verbatim>\<open>r\<close>, \<^verbatim>\<open>sigma\<close>, \<^verbatim>\<open>t\<close> is divided, so an int argument
  behaves as the same number given as a float.
\<close>

definition bsm_math :: "real \<Rightarrow> real \<Rightarrow> real \<Rightarrow> real \<Rightarrow> real \<Rightarrow> pyerror + real" where
  "bsm_math s_0 r sigma t z =
     (case math_sqrt t of
        Inl e \<Rightarrow> Inl e
      | Inr q \<Rightarrow> Inr (s_0 * exp (r - 0.5 * sigma ^ 2 * t + z * sigma * q)))"

definition bsm_entry :: "real \<Rightarrow> real \<Rightarrow> real \<Rightarrow> real \<Rightarrow> real \<Rightarrow> real option" where
  "bsm_entry s_0 r sigma t z =
     (case np_sqrt t of
        None \<Rightarrow> None
      | Some q \<Rightarrow> Some (s_0 * exp (r - 0.5 * sigma ^ 2 * t + z * sigma * q)))"

definition bsm :: "real \<Rightarrow> real \<Rightarrow> real \<Rightarrow> real \<Rightarrow> real list \<Rightarrow> real option list" where
  "bsm s_0 r sigma t z = map (bsm_entry s_0 r sigma t) z"

section \<open>The Monte Carlo valuator\<close>

text \<open>
  Cell 12, after the draws:
  \<^verbatim>\<open>
  optionvalueAtExpiry = np.maximum(stockpricesAtExpiry-strikeprice,0)
  averageForwardOptionValue = sum(optionvalueAtExpiry)/n
  presentOptionValue = averageForwardOptionValue*math.exp(-r*t)
  \<close>
  The cell draws \<^verbatim>\<open>n\<close> prices, so \<^verbatim>\<open>n\<close> is the length of every array in it. With
  \<^verbatim>\<open>n = 0\<close> the arrays are empty, \<^verbatim>\<open>sum\<close> returns the int 0 and \<^verbatim>\<open>0/0\<close> raises.
\<close>

definition optionvalueAtExpiry :: "real list \<Rightarrow> real \<Rightarrow> real list" where
  "optionvalueAtExpiry stockpricesAtExpiry strikeprice =
     map (\<lambda>s. max (s - strikeprice) 0) stockpricesAtExpiry"

definition averageForwardOptionValue :: "real list \<Rightarrow> real \<Rightarrow> pyerror + real" where
  "averageForwardOptionValue stockpricesAtExpiry strikeprice =
     (let n = length stockpricesAtExpiry
      in if n = 0 then Inl ZeroDivisionError
         else Inr (py_sum (optionvalueAtExpiry stockpricesAtExpiry strikeprice) / real n))"

definition presentOptionValue :: "real list \<Rightarrow> real \<Rightarrow> real \<Rightarrow> real \<Rightarrow> pyerror + real" where
  "presentOptionValue stockpricesAtExpiry strikeprice r t =
     (case averageForwardOptionValue stockpricesAtExpiry strikeprice of
        Inl e \<Rightarrow> Inl e
      | Inr a \<Rightarrow> Inr (a * exp (- r * t)))"

section \<open>The closed-form valuator\<close>

text \<open>
  Cell 14:
  \<^verbatim>\<open>
  def call(s, r, sigma, t, k):
      d1=1/(sigma*math.sqrt(t))*(math.log(float(s/k))+(r+0.5*(sigma**2))*t)
      d2=d1-sigma*math.sqrt(t)
      return norm.cdf(d1)*s-norm.cdf(d2)*k*math.exp((-1)*r*t)
  \<close>
  Python evaluates the operands of \<^verbatim>\<open>*\<close> from the left: the square root, the division
  by \<^verbatim>\<open>sigma*math.sqrt(t)\<close>, the quotient \<^verbatim>\<open>s/k\<close>, then the logarithm. The quotient
  \<^verbatim>\<open>s/k\<close> is taken before \<^verbatim>\<open>float\<close> is applied, so \<open>s\<close> and \<open>k\<close> keep their Python
  type in the model. \<^verbatim>\<open>norm.cdf\<close> is scipy's, not the notebook's: it is the parameter
  \<open>norm_cdf\<close>.
\<close>

definition call :: "(real \<Rightarrow> real) \<Rightarrow> pynum \<Rightarrow> real \<Rightarrow> real \<Rightarrow> real \<Rightarrow> pynum \<Rightarrow> pyerror + real" where
  "call norm_cdf s r sigma t k =
     (case math_sqrt t of
        Inl e \<Rightarrow> Inl e
      | Inr q \<Rightarrow>
     (case float_div 1 (sigma * q) of
        Inl e \<Rightarrow> Inl e
      | Inr c \<Rightarrow>
     (case py_div s k of
        Inl e \<Rightarrow> Inl e
      | Inr sk \<Rightarrow>
     (case math_log (to_float sk) of
        Inl e \<Rightarrow> Inl e
      | Inr l \<Rightarrow>
          (let d1 = c * (l + (r + 0.5 * sigma ^ 2) * t);
               d2 = d1 - sigma * q
           in Inr (norm_cdf d1 * to_float s
                   - norm_cdf d2 * to_float k * exp ((- 1) * r * t)))))))"

section \<open>The standard normal distribution function\<close>

text \<open>
  Modelled from the spec: \<^verbatim>\<open>norm.cdf\<close> belongs to scipy, which is not part of the
  repository. The spec and the notebook both call it the standard normal cumulative
  distribution function. It is given here by its power series around 0,
  \<open>1/2 + (x - x^3/6 + x^5/40 - x^7/336 + ...) / sqrt (2 * pi)\<close>,
  the termwise integral of the density \<open>exp (- x^2 / 2) / sqrt (2 * pi)\<close>: see
  \<open>std_normal_cdf_0\<close> and \<open>std_normal_cdf_density\<close> below.
\<close>

definition cdf_term :: "real \<Rightarrow> nat \<Rightarrow> real" where
  "cdf_term x n = x ^ (2 * n + 1) / (2 ^ n * fact n * real (2 * n + 1))"

definition cdf_coeff :: "nat \<Rightarrow> real" where
  \<comment> \<open>the coefficient of \<open>x ^ (2 * k + 1)\<close> in the series, with its sign\<close>
  "cdf_coeff k = (- 1) ^ k / (2 ^ k * fact k * real (2 * k + 1))"

definition std_normal_cdf :: "real \<Rightarrow> real" where
  "std_normal_cdf x = 1 / 2 + (\<Sum>n. (- 1) ^ n * cdf_term x n) / sqrt (2 * pi)"

section \<open>Facts about the library functions\<close>

lemma py_sum_sum_list: "py_sum xs = sum_list xs"
proof -
  have "foldl (+) a xs = a + sum_list xs" for a :: real
    by (induction xs arbitrary: a) (simp_all add: algebra_simps)
  from this [of 0] show ?thesis
    by (simp add: py_sum_def)
qed

lemma sqrt_quarter: "sqrt (1 / 4) = 1 / 2"
  by (simp add: real_sqrt_divide)

lemma math_sqrt_quarter: "math_sqrt (1 / 4) = Inr (1 / 2)"
  by (simp add: math_sqrt_def sqrt_quarter)

lemma np_sqrt_quarter: "np_sqrt (1 / 4) = Some (1 / 2)"
  by (simp add: np_sqrt_def sqrt_quarter)

lemma optionvalueAtExpiry_nonneg: "0 \<le> sum_list (optionvalueAtExpiry xs k)"
  by (induction xs) (simp_all add: optionvalueAtExpiry_def)

subsection \<open>Taylor polynomials with remainder\<close>

lemma exp_taylor_bound:
  fixes x :: real
  assumes "\<bar>x\<bar> \<le> 1"
  shows "\<bar>exp x - (\<Sum>m<n. x ^ m / fact m)\<bar> \<le> 3 * \<bar>x\<bar> ^ n / fact n"
proof -
  obtain t where t: "\<bar>t\<bar> \<le> \<bar>x\<bar>"
    and eq: "exp x = (\<Sum>m<n. x ^ m / fact m) + exp t / fact n * x ^ n"
    using Maclaurin_exp_le [of x n] by blast
  have "t \<le> 1"
    using t assms by linarith
  then have "exp t \<le> exp 1"
    by simp
  then have e3: "exp t \<le> 3"
    using exp_le by linarith
  have "\<bar>exp x - (\<Sum>m<n. x ^ m / fact m)\<bar> = exp t * (\<bar>x\<bar> ^ n / fact n)"
    using eq by (simp add: abs_mult power_abs)
  also have "\<dots> \<le> 3 * (\<bar>x\<bar> ^ n / fact n)"
    using e3 by (intro mult_right_mono) simp_all
  finally show ?thesis
    by simp
qed

lemma cos_taylor_bound:
  fixes x :: real
  shows "\<bar>cos x - (\<Sum>m<n. cos_coeff m * x ^ m)\<bar> \<le> \<bar>x\<bar> ^ n / fact n"
proof -
  obtain t where
    eq: "cos x = (\<Sum>m<n. cos_coeff m * x ^ m) + cos (t + 1 / 2 * real n * pi) / fact n * x ^ n"
    using Maclaurin_cos_expansion [of x n] by blast
  have "\<bar>cos x - (\<Sum>m<n. cos_coeff m * x ^ m)\<bar>
      = \<bar>cos (t + 1 / 2 * real n * pi)\<bar> * (\<bar>x\<bar> ^ n / fact n)"
    using eq by (simp add: abs_mult power_abs)
  also have "\<dots> \<le> 1 * (\<bar>x\<bar> ^ n / fact n)"
    by (intro mult_right_mono) simp_all
  finally show ?thesis
    by simp
qed

lemma exp_taylor_upper:
  fixes x :: real
  assumes "\<bar>x\<bar> \<le> 1"
  shows "exp x \<le> (\<Sum>m<n. x ^ m / fact m) + 3 * \<bar>x\<bar> ^ n / fact n"
  using exp_taylor_bound [OF assms, of n] by linarith

lemma exp_taylor_lower:
  fixes x :: real
  assumes "\<bar>x\<bar> \<le> 1"
  shows "(\<Sum>m<n. x ^ m / fact m) - 3 * \<bar>x\<bar> ^ n / fact n \<le> exp x"
  using exp_taylor_bound [OF assms, of n] by linarith

lemma cos_taylor_upper:
  fixes x :: real
  shows "cos x \<le> (\<Sum>m<n. cos_coeff m * x ^ m) + \<bar>x\<bar> ^ n / fact n"
  using cos_taylor_bound [of x n] by linarith

lemma cos_taylor_lower:
  fixes x :: real
  shows "(\<Sum>m<n. cos_coeff m * x ^ m) - \<bar>x\<bar> ^ n / fact n \<le> cos x"
  using cos_taylor_bound [of x n] by linarith

section \<open>The series is the standard normal distribution function\<close>

text \<open>
  \<open>std_normal_cdf\<close> is 1/2 at 0 and its derivative is the standard normal density
  \<open>exp (- x^2 / 2) / sqrt (2 * pi)\<close> everywhere. The series is \<open>x * h (x^2)\<close> for the
  power series \<open>h\<close> with coefficients \<open>cdf_coeff\<close>, which converges everywhere and is
  differentiated term by term.
\<close>

lemma cdf_coeff_summable: "summable (\<lambda>k. cdf_coeff k * u ^ k)"
proof (rule summable_comparison_test')
  show "summable (\<lambda>k. inverse (fact k) * \<bar>u\<bar> ^ k)"
    by (rule summable_exp)
  show "norm (cdf_coeff k * u ^ k) \<le> inverse (fact k) * \<bar>u\<bar> ^ k" if "0 \<le> k" for k
  proof -
    have "(1::real) * fact k * 1 \<le> 2 ^ k * fact k * real (2 * k + 1)"
      by (intro mult_mono) simp_all
    then have "1 / (2 ^ k * fact k * real (2 * k + 1)) \<le> 1 / (fact k :: real)"
      by (intro frac_le) simp_all
    then have "\<bar>cdf_coeff k\<bar> \<le> inverse (fact k)"
      by (simp add: cdf_coeff_def abs_divide power_abs inverse_eq_divide abs_mult)
    then show ?thesis
      by (simp add: abs_mult power_abs mult_right_mono)
  qed
qed

lemma cdf_term_coeff: "(- 1) ^ n * cdf_term x n = x * (cdf_coeff n * (x\<^sup>2) ^ n)"
  by (simp add: cdf_term_def cdf_coeff_def power_mult)

lemma cdf_series_eq: "(\<Sum>n. (- 1) ^ n * cdf_term x n) = x * (\<Sum>n. cdf_coeff n * (x\<^sup>2) ^ n)"
  unfolding cdf_term_coeff by (rule suminf_mult [OF cdf_coeff_summable])

lemma cdf_coeff_density:
  "(\<Sum>n. cdf_coeff n * u ^ n) + 2 * u * (\<Sum>n. diffs cdf_coeff n * u ^ n) = exp (- u / 2)"
proof -
  have d: "summable (\<lambda>n. diffs cdf_coeff n * u ^ n)"
    by (rule termdiff_converges_all [OF cdf_coeff_summable])
  have "(\<lambda>n. 2 * u * (of_nat n * cdf_coeff n * u ^ (n - Suc 0)))
      sums (2 * u * (\<Sum>n. diffs cdf_coeff n * u ^ n))"
    by (rule sums_mult [OF diffs_equiv [OF d]])
  moreover have "2 * u * (of_nat n * cdf_coeff n * u ^ (n - Suc 0)) = 2 * real n * cdf_coeff n * u ^ n" for n
    by (cases n) simp_all
  ultimately have "(\<lambda>n. 2 * real n * cdf_coeff n * u ^ n)
      sums (2 * u * (\<Sum>n. diffs cdf_coeff n * u ^ n))"
    by simp
  from sums_add [OF summable_sums [OF cdf_coeff_summable [of u]] this]
  have "(\<lambda>n. cdf_coeff n * u ^ n + 2 * real n * cdf_coeff n * u ^ n)
      sums ((\<Sum>n. cdf_coeff n * u ^ n) + 2 * u * (\<Sum>n. diffs cdf_coeff n * u ^ n))" .
  moreover have "cdf_coeff n * u ^ n + 2 * real n * cdf_coeff n * u ^ n = (- u / 2) ^ n /\<^sub>R fact n" for n
  proof -
    have "cdf_coeff n * u ^ n + 2 * real n * cdf_coeff n * u ^ n
        = (real (2 * n + 1) * cdf_coeff n) * u ^ n"
      by (simp add: algebra_simps)
    also have "real (2 * n + 1) * cdf_coeff n = (- 1) ^ n / (2 ^ n * fact n)"
      by (simp add: cdf_coeff_def)
    also have "(- 1) ^ n / (2 ^ n * fact n) * u ^ n = (- u / 2) ^ n /\<^sub>R fact n"
    proof -
      have "(- u / 2) ^ n = ((- 1) * (u / 2)) ^ n"
        by simp
      also have "\<dots> = (- 1) ^ n * (u / 2) ^ n"
        by (rule power_mult_distrib)
      also have "(u / 2) ^ n = u ^ n / 2 ^ n"
        by (rule power_divide)
      finally show ?thesis
        by (simp add: field_simps)
    qed
    finally show ?thesis .
  qed
  ultimately have "(\<lambda>n. (- u / 2) ^ n /\<^sub>R fact n)
      sums ((\<Sum>n. cdf_coeff n * u ^ n) + 2 * u * (\<Sum>n. diffs cdf_coeff n * u ^ n))"
    by simp
  then show ?thesis
    using exp_converges [of "- u / 2"] sums_unique2 by blast
qed

lemma std_normal_cdf_density:
  "(std_normal_cdf has_real_derivative exp (- x\<^sup>2 / 2) / sqrt (2 * pi)) (at x)"
proof -
  let ?h = "\<lambda>u. \<Sum>n. cdf_coeff n * u ^ n"
  let ?h' = "\<lambda>u. \<Sum>n. diffs cdf_coeff n * u ^ n"
  have h: "(?h has_real_derivative ?h' u) (at u)" for u
    by (rule termdiffs_strong_converges_everywhere [OF cdf_coeff_summable])
  have sq: "((\<lambda>x. x\<^sup>2) has_real_derivative 2 * x) (at x)"
    by (rule derivative_eq_intros refl | simp)+
  have "((\<lambda>x. x * ?h (x\<^sup>2)) has_real_derivative
      1 * ?h (x\<^sup>2) + ?h' (x\<^sup>2) * (2 * x) * x) (at x)"
    by (rule DERIV_mult [OF DERIV_ident DERIV_chain' [OF sq h]])
  then have "((\<lambda>x. x * ?h (x\<^sup>2) / sqrt (2 * pi)) has_real_derivative
      (1 * ?h (x\<^sup>2) + ?h' (x\<^sup>2) * (2 * x) * x) / sqrt (2 * pi)) (at x)"
    by (rule DERIV_cdivide)
  then have "((\<lambda>x. 1 / 2 + x * ?h (x\<^sup>2) / sqrt (2 * pi)) has_real_derivative
      0 + (1 * ?h (x\<^sup>2) + ?h' (x\<^sup>2) * (2 * x) * x) / sqrt (2 * pi)) (at x)"
    by (rule DERIV_add [OF DERIV_const])
  moreover have "std_normal_cdf = (\<lambda>x. 1 / 2 + x * ?h (x\<^sup>2) / sqrt (2 * pi))"
    by (rule ext) (simp add: std_normal_cdf_def cdf_series_eq)
  moreover have "1 * ?h (x\<^sup>2) + ?h' (x\<^sup>2) * (2 * x) * x = exp (- x\<^sup>2 / 2)"
    using cdf_coeff_density [of "x\<^sup>2"] by (simp add: power2_eq_square mult_ac)
  ultimately show ?thesis
    by simp
qed

lemma std_normal_cdf_0: "std_normal_cdf 0 = 1 / 2"
  by (simp add: std_normal_cdf_def cdf_term_def)

section \<open>The Monte Carlo valuator: value and sign\<close>

text \<open>
  C4. For every sample of terminal prices that is not empty, every strike, rate and
  expiry, the Monte Carlo cell returns the sum over the samples of
  \<open>max (S_T - strike) 0\<close>, divided by the number of samples, times \<open>exp (- r * t)\<close>.
\<close>

theorem presentOptionValue_value:
  assumes "samples \<noteq> []"
  shows "presentOptionValue samples strike r t =
           Inr ((\<Sum>s\<leftarrow>samples. max (s - strike) 0) / real (length samples) * exp (- r * t))"
  using assms
  by (simp add: presentOptionValue_def averageForwardOptionValue_def py_sum_sum_list
      optionvalueAtExpiry_def)

theorem presentOptionValue_value_witness:
  "presentOptionValue [110, 95, 120] 105 0 1 = Inr (20 / 3)"
  using presentOptionValue_value [of "[110, 95, 120]" 105 0 1]
  by simp

text \<open>
  C8. For every sample that is not empty, the Monte Carlo cell returns a value, and the
  value is not negative: no payoff is below zero, and the discount factor is positive.
  The expiry needs no sign for this.
\<close>

theorem presentOptionValue_nonneg:
  assumes "samples \<noteq> []"
  shows "\<exists>v. presentOptionValue samples strike r t = Inr v \<and> 0 \<le> v"
proof -
  let ?pay = "optionvalueAtExpiry samples strike"
  have val: "presentOptionValue samples strike r t =
      Inr (sum_list ?pay / real (length samples) * exp (- r * t))"
    using assms
    by (simp add: presentOptionValue_def averageForwardOptionValue_def py_sum_sum_list)
  have "0 \<le> sum_list ?pay / real (length samples)"
    using optionvalueAtExpiry_nonneg [of samples strike] by simp
  then have "0 \<le> sum_list ?pay / real (length samples) * exp (- r * t)"
    by (rule mult_nonneg_nonneg) simp
  with val show ?thesis
    by blast
qed

theorem presentOptionValue_nonneg_witness:
  "\<exists>v. presentOptionValue [90, 100] 105 (3 / 100) (1 / 4) = Inr v \<and> 0 \<le> v"
  using presentOptionValue_nonneg [of "[90, 100]" 105 "3 / 100" "1 / 4"]
  by simp

section \<open>The simulator: what it computes\<close>

text \<open>
  For an expiry that is not negative, the simulator returns one price per draw, in the
  order of the draws, and each price is a function of its own draw only. The exponent is
  \<open>r - 0.5 * sigma^2 * t + z * sigma * sqrt t\<close>: the rate stands alone, it is not
  multiplied by the expiry.
\<close>

lemma bsm_entry_value:
  "0 \<le> t \<Longrightarrow>
     bsm_entry s_0 r sigma t z = Some (s_0 * exp (r - 0.5 * sigma ^ 2 * t + z * sigma * sqrt t))"
  by (simp add: bsm_entry_def np_sqrt_def)

lemma bsm_value:
  "0 \<le> t \<Longrightarrow>
     bsm s_0 r sigma t z =
       map (\<lambda>z_i. Some (s_0 * exp (r - 0.5 * sigma ^ 2 * t + z_i * sigma * sqrt t))) z"
  by (simp add: bsm_def bsm_entry_value)

lemma bsm_length: "length (bsm s_0 r sigma t z) = length z"
  by (simp add: bsm_def)

lemma bsm_nth: "i < length z \<Longrightarrow> bsm s_0 r sigma t z ! i = bsm_entry s_0 r sigma t (z ! i)"
  by (simp add: bsm_def)

lemma bsm_math_entry: "0 \<le> t \<Longrightarrow> bsm_math s_0 r sigma t z = Inr p \<longleftrightarrow> bsm_entry s_0 r sigma t z = Some p"
  by (simp add: bsm_math_def bsm_entry_def math_sqrt_def np_sqrt_def)

text \<open>
  The price of the code and the price of the documented formula
  \<open>S0 * exp ((r - 0.5 * sigma^2) * T + sigma * sqrt T * z)\<close> agree exactly when
  \<open>r * t = r\<close>: at rate 0 or at expiry 1.
\<close>

lemma bsm_entry_documented_iff:
  assumes "0 \<le> t" and "s_0 \<noteq> 0"
  shows "bsm_entry s_0 r sigma t z
           = Some (s_0 * exp ((r - 0.5 * sigma ^ 2) * t + sigma * sqrt t * z))
         \<longleftrightarrow> r * t = r"
  using assms
  by (simp add: bsm_entry_value algebra_simps)

text \<open>
  C1. The claim gives every entry as \<open>S0 * exp ((r - 0.5 * sigma^2) * T + sigma * sqrt T * z_i)\<close>.
  With the notebook's own parameters (spot 100, rate 0.03, volatility 0.4, expiry 0.25)
  and the draws \<open>[1, 2]\<close> the code returns \<open>100 * exp 0.21\<close> and \<open>100 * exp 0.41\<close>, where
  the formula gives \<open>100 * exp 0.1875\<close> and \<open>100 * exp 0.3875\<close>. The length and the
  independence of the entries hold (\<open>bsm_length\<close>, \<open>bsm_nth\<close>).
\<close>

theorem bsm_drift_unscaled:
  "bsm 100 (3 / 100) (4 / 10) (1 / 4) [1, 2]
     = [Some (100 * exp (21 / 100)), Some (100 * exp (41 / 100))]
   \<and> bsm 100 (3 / 100) (4 / 10) (1 / 4) [1, 2]
     \<noteq> map (\<lambda>z. Some (100 * exp ((3 / 100 - 0.5 * (4 / 10) ^ 2) * (1 / 4)
                                     + (4 / 10) * sqrt (1 / 4) * z))) [1, 2]"
  by (simp add: bsm_def bsm_entry_def np_sqrt_quarter sqrt_quarter power2_eq_square)

lemma exp_hundredth_lower: "101 / 100 < exp (1 / 100 :: real)"
  by (rule less_le_trans [OF _ exp_taylor_lower [of _ 3]])
    (simp_all add: lessThan_Suc eval_nat_numeral)

lemma exp_minus_eightieth_upper: "exp (- (1 / 80) :: real) < 99 / 100"
  by (rule le_less_trans [OF exp_taylor_upper [of _ 2]])
    (simp_all add: lessThan_Suc eval_nat_numeral)

text \<open>
  C2. On the single draw \<open>0\<close>, with spot 100, rate 0.03, volatility 0.4 and expiry 0.25,
  the code returns \<open>[100 * exp 0.01]\<close>, which is above 101, not \<open>[100 * exp (- 0.0125)]\<close>,
  which is below 99.
\<close>

theorem bsm_scenario_value:
  "bsm 100 (3 / 100) (4 / 10) (1 / 4) [0] = [Some (100 * exp (1 / 100))]
   \<and> bsm 100 (3 / 100) (4 / 10) (1 / 4) [0] \<noteq> [Some (100 * exp (- (1 / 80)))]
   \<and> 101 < 100 * exp (1 / 100 :: real)
   \<and> 100 * exp (- (1 / 80) :: real) < 99"
  using exp_hundredth_lower exp_minus_eightieth_upper
  by (simp add: bsm_def bsm_entry_def np_sqrt_quarter power2_eq_square)

text \<open>
  C10. For a positive spot, a positive volatility and a positive expiry, the price of a
  draw grows with the draw: for \<open>z1 \<le> z2\<close> both prices exist and the first is at most
  the second.
\<close>

theorem bsm_entry_mono:
  assumes "0 < s_0" and "0 < sigma" and "0 < t" and "z1 \<le> z2"
  shows "\<exists>p1 p2. bsm_entry s_0 r sigma t z1 = Some p1
           \<and> bsm_entry s_0 r sigma t z2 = Some p2 \<and> p1 \<le> p2"
proof -
  have "z1 * (sigma * sqrt t) \<le> z2 * (sigma * sqrt t)"
    using assms by (intro mult_right_mono) simp_all
  then have "s_0 * exp (r - 0.5 * sigma ^ 2 * t + z1 * sigma * sqrt t)
      \<le> s_0 * exp (r - 0.5 * sigma ^ 2 * t + z2 * sigma * sqrt t)"
    using assms(1) by (simp add: mult.assoc)
  then show ?thesis
    using assms(3) by (simp add: bsm_entry_value)
qed

theorem bsm_entry_mono_witness:
  "\<exists>p1 p2. bsm_entry 100 (3 / 100) (4 / 10) (1 / 4) 0 = Some p1
     \<and> bsm_entry 100 (3 / 100) (4 / 10) (1 / 4) 1 = Some p2 \<and> p1 \<le> p2"
  using bsm_entry_mono [of 100 "4 / 10" "1 / 4" 0 1 "3 / 100"]
  by simp

section \<open>The closed-form valuator: value and failures\<close>

text \<open>
  Called with floats for spot and strike, all of spot, volatility, expiry and strike
  positive, \<^verbatim>\<open>call\<close> returns \<open>\<Phi> d1 * S0 - \<Phi> d2 * K * exp (- r * T)\<close> with
  \<open>d1 = (ln (S0 / K) + (r + 0.5 * sigma^2) * T) / (sigma * sqrt T)\<close> and
  \<open>d2 = d1 - sigma * sqrt T\<close>, for whatever function \<open>\<Phi>\<close> stands for \<^verbatim>\<open>norm.cdf\<close>.
  This is the closed form on the arguments the notebook passes.
\<close>

lemma call_closed_form:
  assumes "0 < s" and "0 < sigma" and "0 < t" and "0 < k"
  shows "call norm_cdf (PyFloat s) r sigma t (PyFloat k) =
     (let d1 = (ln (s / k) + (r + 0.5 * sigma ^ 2) * t) / (sigma * sqrt t);
          d2 = d1 - sigma * sqrt t
      in Inr (norm_cdf d1 * s - norm_cdf d2 * k * exp (- r * t)))"
proof -
  have q: "\<not> s / k \<le> 0"
    using assms by (simp add: not_le)
  show ?thesis
    using assms q
    by (simp add: call_def math_sqrt_def float_div_def py_div_def math_log_def to_float_def Let_def)
qed

lemma call_closed_form_float_example:
  "call std_normal_cdf (PyFloat 100) (3 / 100) (4 / 10) (1 / 4) (PyFloat 105) =
     Inr (std_normal_cdf (ln (20 / 21) * 5 + 11 / 80) * 100
          - std_normal_cdf (ln (20 / 21) * 5 - 1 / 16) * 105 * exp (- (3 / 400)))"
  using call_closed_form [of 100 "4 / 10" "1 / 4" 105 std_normal_cdf "3 / 100"]
  by (simp add: sqrt_quarter power2_eq_square Let_def)

text \<open>
  \<^verbatim>\<open>call\<close> converts to float after dividing: \<^verbatim>\<open>float(s/k)\<close>. Called with ints for spot
  and strike it takes the logarithm of the quotient rounded down: it fails for a spot
  below the strike, and prices a spot at or above the strike as if it were a multiple of
  the strike.
\<close>

lemma call_int_below:
  assumes "sigma \<noteq> 0" and "0 < t" and "0 \<le> s" and "s < k"
  shows "call norm_cdf (PyInt s) r sigma t (PyInt k) = Inl ValueError"
  using assms
  by (simp add: call_def math_sqrt_def float_div_def py_div_def math_log_def to_float_def)

lemma call_int_floor:
  assumes "0 < sigma" and "0 < t" and "0 < k" and "k \<le> s"
  shows "call norm_cdf (PyInt s) r sigma t (PyInt k) =
     (let d1 = (ln (real_of_int (s div k)) + (r + 0.5 * sigma ^ 2) * t) / (sigma * sqrt t);
          d2 = d1 - sigma * sqrt t
      in Inr (norm_cdf d1 * real_of_int s - norm_cdf d2 * real_of_int k * exp (- r * t)))"
proof -
  have "0 < s div k"
    using assms(3,4) by (simp add: pos_imp_zdiv_pos_iff)
  then have "1 \<le> s div k"
    by simp
  then have "\<not> real_of_int (s div k) \<le> 0"
    by linarith
  then show ?thesis
    using assms
    by (simp add: call_def math_sqrt_def float_div_def py_div_def math_log_def to_float_def Let_def)
qed

text \<open>
  C5. The claim gives the closed form for every positive spot and strike. With the ints
  100 and 105 \<^verbatim>\<open>call\<close> raises instead of returning it. With the ints 200 and 105 it
  returns a price, computed with \<open>d1 = 11/80\<close>, which is the closed form's \<open>d1\<close> with
  \<open>ln 1\<close> in place of \<open>ln (200 / 105)\<close>; the closed form's own \<open>d1\<close> is another number.
\<close>

theorem call_int_not_closed_form:
  "call norm_cdf (PyInt 100) (3 / 100) (4 / 10) (1 / 4) (PyInt 105)
     \<noteq> (let d1 = (ln (100 / 105) + (3 / 100 + 0.5 * (4 / 10) ^ 2) * (1 / 4)) / (4 / 10 * sqrt (1 / 4));
             d2 = d1 - 4 / 10 * sqrt (1 / 4)
         in Inr (norm_cdf d1 * 100 - norm_cdf d2 * 105 * exp (- (3 / 100) * (1 / 4))))
   \<and> call norm_cdf (PyInt 200) (3 / 100) (4 / 10) (1 / 4) (PyInt 105)
     = Inr (norm_cdf (11 / 80) * 200 - norm_cdf (- (1 / 16)) * 105 * exp (- (3 / 400)))
   \<and> (ln (200 / 105) + (3 / 100 + 0.5 * (4 / 10) ^ 2) * (1 / 4)) / (4 / 10 * sqrt (1 / 4))
     \<noteq> (11 / 80 :: real)"
proof -
  have a: "call norm_cdf (PyInt 100) (3 / 100) (4 / 10) (1 / 4) (PyInt 105) = Inl ValueError"
    by (simp add: call_def math_sqrt_quarter float_div_def py_div_def math_log_def to_float_def)
  have b: "call norm_cdf (PyInt 200) (3 / 100) (4 / 10) (1 / 4) (PyInt 105)
     = Inr (norm_cdf (11 / 80) * 200 - norm_cdf (- (1 / 16)) * 105 * exp (- (3 / 400)))"
    by (simp add: call_def math_sqrt_quarter float_div_def py_div_def math_log_def to_float_def
        power2_eq_square Let_def)
  have "0 < ln (200 / 105 :: real)"
    by (rule ln_gt_zero) simp
  then have c: "(ln (200 / 105) + (3 / 100 + 0.5 * (4 / 10) ^ 2) * (1 / 4)) / (4 / 10 * sqrt (1 / 4))
     \<noteq> (11 / 80 :: real)"
    by (simp add: sqrt_quarter power2_eq_square field_simps)
  from a b c show ?thesis
    by (simp add: Let_def)
qed

text \<open>
  C9. The claim says that with positive spot, strike, volatility and expiry the argument
  of the logarithm is positive and no error can occur. With the ints 100 and 105 (the
  notebook's own spot and \<^verbatim>\<open>strikeprice\<close>, as it passes them to \<^verbatim>\<open>bsm\<close> and to the Monte
  Carlo cell) the quotient \<^verbatim>\<open>s/k\<close> is the int 0, and \<^verbatim>\<open>math.log(0.0)\<close> raises a math
  domain error.
\<close>

theorem call_int_args:
  "call norm_cdf (PyInt 100) (3 / 100) (4 / 10) (1 / 4) (PyInt 105) = Inl ValueError"
  by (simp add: call_def math_sqrt_quarter float_div_def py_div_def math_log_def to_float_def)

section \<open>Parameters outside the valid range\<close>

text \<open>
  C3. The claim has every operation reject \<open>sigma = 0\<close>, \<open>T = 0\<close>, \<open>S0 = 0\<close>, \<open>K = 0\<close> and
  an empty sample with an error of its own kind. The code has no such check anywhere.
  The simulator with volatility 0 returns a price:
\<close>

theorem no_validation_counterexample:
  "bsm 100 (3 / 100) 0 (1 / 4) [0] = [Some (100 * exp (3 / 100))]
   \<and> bsm_math 100 (3 / 100) 0 (1 / 4) 0 = Inr (100 * exp (3 / 100))"
  by (simp add: bsm_def bsm_entry_def bsm_math_def np_sqrt_quarter math_sqrt_quarter)

text \<open>
  C3 as amended: what the code does at these inputs.
  \<^item> The simulator never fails: for an expiry that is not negative it returns one price
    per draw, also with volatility 0, expiry 0 or spot 0, and no price for no draw.
  \<^item> The Monte Carlo cell fails on an empty sample with \<^verbatim>\<open>ZeroDivisionError\<close>, and
    returns a value on any other sample.
  \<^item> \<^verbatim>\<open>call\<close> fails with \<^verbatim>\<open>ZeroDivisionError\<close> at volatility 0 (expiry not negative), at
    expiry 0, and at strike 0 (volatility not 0, expiry positive); it fails with
    \<^verbatim>\<open>ValueError\<close> at spot 0 (volatility not 0, expiry positive, strike not 0).
  \<^item> \<^verbatim>\<open>call\<close> on floats with positive spot, volatility, expiry and strike returns a value.
\<close>

theorem failures_without_validation:
  "(0 \<le> t \<longrightarrow>
      bsm spot r sigma t z
        = map (\<lambda>z_i. Some (spot * exp (r - 0.5 * sigma ^ 2 * t + z_i * sigma * sqrt t))) z)
   \<and> bsm spot r sigma t [] = []
   \<and> presentOptionValue [] strike r t = Inl ZeroDivisionError
   \<and> (samples \<noteq> [] \<longrightarrow> (\<exists>v. presentOptionValue samples strike r t = Inr v))
   \<and> (0 \<le> t \<longrightarrow> call norm_cdf s r 0 t k = Inl ZeroDivisionError)
   \<and> call norm_cdf s r sigma 0 k = Inl ZeroDivisionError
   \<and> (sigma \<noteq> 0 \<and> 0 < t \<and> to_float k = 0 \<longrightarrow>
        call norm_cdf s r sigma t k = Inl ZeroDivisionError)
   \<and> (sigma \<noteq> 0 \<and> 0 < t \<and> to_float k \<noteq> 0 \<and> to_float s = 0 \<longrightarrow>
        call norm_cdf s r sigma t k = Inl ValueError)
   \<and> (0 < x \<and> 0 < sigma \<and> 0 < t \<and> 0 < y \<longrightarrow>
        (\<exists>v. call norm_cdf (PyFloat x) r sigma t (PyFloat y) = Inr v))"
proof -
  have a: "0 \<le> t \<longrightarrow>
      bsm spot r sigma t z
        = map (\<lambda>z_i. Some (spot * exp (r - 0.5 * sigma ^ 2 * t + z_i * sigma * sqrt t))) z"
    by (simp add: bsm_value)
  have b: "bsm spot r sigma t [] = []"
    by (simp add: bsm_def)
  have c: "presentOptionValue [] strike r t = Inl ZeroDivisionError"
    by (simp add: presentOptionValue_def averageForwardOptionValue_def)
  have d: "samples \<noteq> [] \<longrightarrow> (\<exists>v. presentOptionValue samples strike r t = Inr v)"
    by (simp add: presentOptionValue_def averageForwardOptionValue_def)
  have e: "0 \<le> t \<longrightarrow> call norm_cdf s r 0 t k = Inl ZeroDivisionError"
    by (simp add: call_def math_sqrt_def float_div_def)
  have f: "call norm_cdf s r sigma 0 k = Inl ZeroDivisionError"
    by (simp add: call_def math_sqrt_def float_div_def)
  have g: "sigma \<noteq> 0 \<and> 0 < t \<and> to_float k = 0 \<longrightarrow>
        call norm_cdf s r sigma t k = Inl ZeroDivisionError"
    by (cases s; cases k) (auto simp: call_def math_sqrt_def float_div_def py_div_def to_float_def)
  have h: "sigma \<noteq> 0 \<and> 0 < t \<and> to_float k \<noteq> 0 \<and> to_float s = 0 \<longrightarrow>
        call norm_cdf s r sigma t k = Inl ValueError"
    by (cases s; cases k)
      (auto simp: call_def math_sqrt_def float_div_def py_div_def to_float_def math_log_def)
  have i: "0 < x \<and> 0 < sigma \<and> 0 < t \<and> 0 < y \<longrightarrow>
        (\<exists>v. call norm_cdf (PyFloat x) r sigma t (PyFloat y) = Inr v)"
  proof (intro impI)
    assume pos: "0 < x \<and> 0 < sigma \<and> 0 < t \<and> 0 < y"
    then have "\<not> x / y \<le> 0"
      by (simp add: not_le)
    with pos show "\<exists>v. call norm_cdf (PyFloat x) r sigma t (PyFloat y) = Inr v"
      by (simp add: call_def math_sqrt_def float_div_def py_div_def to_float_def math_log_def
          Let_def)
  qed
  from a b c d e f g h i show ?thesis
    by blast
qed

theorem failures_without_validation_witness:
  "bsm 100 (3 / 100) 0 0 [0, 1] = [Some (100 * exp (3 / 100)), Some (100 * exp (3 / 100))]
   \<and> bsm 0 (3 / 100) (4 / 10) (1 / 4) [] = []
   \<and> presentOptionValue [] 105 (3 / 100) (1 / 4) = Inl ZeroDivisionError
   \<and> (\<exists>v. presentOptionValue [110, 95] 105 (3 / 100) (1 / 4) = Inr v)
   \<and> call std_normal_cdf (PyFloat 100) (3 / 100) 0 (1 / 4) (PyFloat 105) = Inl ZeroDivisionError
   \<and> call std_normal_cdf (PyFloat 100) (3 / 100) (4 / 10) 0 (PyFloat 105) = Inl ZeroDivisionError
   \<and> call std_normal_cdf (PyFloat 100) (3 / 100) (4 / 10) (1 / 4) (PyFloat 0) = Inl ZeroDivisionError
   \<and> call std_normal_cdf (PyFloat 0) (3 / 100) (4 / 10) (1 / 4) (PyFloat 105) = Inl ValueError
   \<and> (\<exists>v. call std_normal_cdf (PyFloat 100) (3 / 100) (4 / 10) (1 / 4) (PyFloat 105) = Inr v)"
proof -
  note sim = failures_without_validation [where spot = 100 and r = "3 / 100" and sigma = 0
      and t = 0 and z = "[0, 1]"]
  note emp = failures_without_validation [where spot = 0 and r = "3 / 100" and sigma = "4 / 10"
      and t = "1 / 4" and strike = 105 and samples = "[110, 95]" and norm_cdf = std_normal_cdf
      and s = "PyFloat 100" and k = "PyFloat 105" and x = 100 and y = 105]
  note k0 = failures_without_validation [where r = "3 / 100" and sigma = "4 / 10"
      and t = "1 / 4" and norm_cdf = std_normal_cdf and s = "PyFloat 100" and k = "PyFloat 0"]
  note s0 = failures_without_validation [where r = "3 / 100" and sigma = "4 / 10"
      and t = "1 / 4" and norm_cdf = std_normal_cdf and s = "PyFloat 0" and k = "PyFloat 105"]
  have c1: "bsm 100 (3 / 100) 0 0 [0, 1] = [Some (100 * exp (3 / 100)), Some (100 * exp (3 / 100))]"
    using sim by simp
  have c2: "bsm 0 (3 / 100) (4 / 10) (1 / 4) [] = []"
    using emp by simp
  have c3: "presentOptionValue [] 105 (3 / 100) (1 / 4) = Inl ZeroDivisionError"
    using emp by simp
  have c4: "\<exists>v. presentOptionValue [110, 95] 105 (3 / 100) (1 / 4) = Inr v"
    using emp by simp
  have c5: "call std_normal_cdf (PyFloat 100) (3 / 100) 0 (1 / 4) (PyFloat 105) = Inl ZeroDivisionError"
    using emp by simp
  have c6: "call std_normal_cdf (PyFloat 100) (3 / 100) (4 / 10) 0 (PyFloat 105) = Inl ZeroDivisionError"
    using emp by simp
  have c7: "call std_normal_cdf (PyFloat 100) (3 / 100) (4 / 10) (1 / 4) (PyFloat 0) = Inl ZeroDivisionError"
    using k0 by (simp add: to_float_def)
  have c8: "call std_normal_cdf (PyFloat 0) (3 / 100) (4 / 10) (1 / 4) (PyFloat 105) = Inl ValueError"
    using s0 by (simp add: to_float_def)
  have c9: "\<exists>v. call std_normal_cdf (PyFloat 100) (3 / 100) (4 / 10) (1 / 4) (PyFloat 105) = Inr v"
    using emp by simp
  from c1 c2 c3 c4 c5 c6 c7 c8 c9 show ?thesis
    by blast
qed

section \<open>The notebook's closed-form price\<close>

text \<open>
  The value of \<^verbatim>\<open>call(100.0, 0.03, 0.4, 3.0/12, 105.0)\<close> is bounded by interval arithmetic
  on rationals: Taylor polynomials with remainder for \<open>exp\<close> and \<open>cos\<close>, bounds on
  \<open>ln (21 / 20)\<close> and on \<open>pi\<close> from them, and the alternating series of
  \<open>std_normal_cdf\<close> cut after four and after five terms.
\<close>

lemma ln_21_20_lower: "487901 / 10 ^ 7 \<le> ln (21 / 20 :: real)"
proof -
  have "exp (487901 / 10 ^ 7 :: real) \<le> 21 / 20"
    by (rule order_trans [OF exp_taylor_upper [of _ 5]])
      (simp_all add: lessThan_Suc eval_nat_numeral)
  moreover have "(0::real) < 21 / 20"
    by simp
  ultimately show ?thesis
    using ln_ge_iff [of "21 / 20" "487901 / 10 ^ 7"] by blast
qed

lemma ln_21_20_upper: "ln (21 / 20 :: real) \<le> 487902 / 10 ^ 7"
proof -
  have "21 / 20 \<le> exp (487902 / 10 ^ 7 :: real)"
    by (rule order_trans [OF _ exp_taylor_lower [of _ 5]])
      (simp_all add: lessThan_Suc eval_nat_numeral)
  then have "ln (21 / 20 :: real) \<le> ln (exp (487902 / 10 ^ 7))"
    by (subst ln_le_cancel_iff) simp_all
  then show ?thesis
    by (simp only: ln_exp)
qed

lemma exp_discount_bounds:
  "99252805 / 10 ^ 8 \<le> exp (- (3 / 400) :: real) \<and> exp (- (3 / 400) :: real) \<le> 99252806 / 10 ^ 8"
proof
  show "99252805 / 10 ^ 8 \<le> exp (- (3 / 400) :: real)"
    by (rule order_trans [OF _ exp_taylor_lower [of _ 4]])
      (simp_all add: lessThan_Suc eval_nat_numeral)
  show "exp (- (3 / 400) :: real) \<le> 99252806 / 10 ^ 8"
    by (rule order_trans [OF exp_taylor_upper [of _ 4]])
      (simp_all add: lessThan_Suc eval_nat_numeral)
qed

lemma cos_coeff_sum_14:
  "(\<Sum>m<14. cos_coeff m * x ^ m) =
     1 - x ^ 2 / 2 + x ^ 4 / 24 - x ^ 6 / 720 + x ^ 8 / 40320 - x ^ 10 / 3628800
       + x ^ 12 / 479001600"
proof -
  have unroll: "(\<Sum>m<14. f m) =
      f 0 + f 1 + f 2 + f 3 + f 4 + f 5 + f 6 + f 7 + f 8 + f 9 + f 10 + f 11 + f 12 + f 13"
    for f :: "nat \<Rightarrow> real"
    by (simp add: lessThan_Suc eval_nat_numeral)
  show ?thesis
    unfolding unroll by (simp add: cos_coeff_def fact_numeral)
qed

lemma pi_lower: "314159 / 100000 \<le> pi"
proof -
  let ?a = "314159 / 200000 :: real"
  have "0 < (\<Sum>m<14. cos_coeff m * ?a ^ m) - \<bar>?a\<bar> ^ 14 / fact 14"
    unfolding cos_coeff_sum_14 by (simp add: eval_nat_numeral)
  then have pos: "0 < cos ?a"
    using cos_taylor_lower [of ?a 14] by linarith
  have "?a \<le> pi / 2"
  proof (rule ccontr)
    assume "\<not> ?a \<le> pi / 2"
    then have "pi / 2 < ?a"
      by simp
    moreover have "?a \<le> pi"
      using pi_ge_two by linarith
    ultimately have "cos ?a < cos (pi / 2)"
      by (intro cos_monotone_0_pi) simp_all
    with pos show False
      by simp
  qed
  then show ?thesis
    by simp
qed

lemma pi_upper: "pi \<le> 31416 / 10000"
proof -
  let ?b = "31416 / 20000 :: real"
  have "(\<Sum>m<14. cos_coeff m * ?b ^ m) + \<bar>?b\<bar> ^ 14 / fact 14 < 0"
    unfolding cos_coeff_sum_14 by (simp add: eval_nat_numeral)
  then have neg: "cos ?b < 0"
    using cos_taylor_upper [of ?b 14] by linarith
  have "pi / 2 \<le> ?b"
  proof (rule ccontr)
    assume "\<not> pi / 2 \<le> ?b"
    then have "?b \<le> pi / 2"
      by simp
    then have "0 \<le> cos ?b"
      by (intro cos_ge_zero) simp_all
    with neg show False
      by simp
  qed
  then show ?thesis
    by simp
qed

lemma cdf_term_nonneg: "0 \<le> y \<Longrightarrow> 0 \<le> cdf_term y n"
  by (simp add: cdf_term_def)

lemma cdf_term_decreasing:
  assumes "0 \<le> y" and "y \<le> 1"
  shows "cdf_term y (Suc n) \<le> cdf_term y n"
proof -
  have num: "y ^ (2 * Suc n + 1) \<le> y ^ (2 * n + 1)"
    using assms by (intro power_decreasing) simp_all
  have "(2::real) ^ n * fact n * real (2 * n + 1) \<le> 2 ^ Suc n * fact (Suc n) * real (2 * Suc n + 1)"
    by (intro mult_mono) simp_all
  moreover have "0 < (2::real) ^ n * fact n * real (2 * n + 1)"
    by simp
  ultimately show ?thesis
    unfolding cdf_term_def using assms num by (intro frac_le) simp_all
qed

lemma cdf_term_le_half_power:
  assumes "0 \<le> y" and "y \<le> 1"
  shows "cdf_term y n \<le> (1 / 2) ^ n"
proof -
  have "y ^ (2 * n + 1) \<le> 1"
    using assms by (intro power_le_one) simp_all
  moreover have "(2::real) ^ n * 1 * 1 \<le> 2 ^ n * fact n * real (2 * n + 1)"
    by (intro mult_mono) (simp_all add: fact_ge_1)
  ultimately have "y ^ (2 * n + 1) / (2 ^ n * fact n * real (2 * n + 1)) \<le> 1 / (2 ^ n)"
    by (intro frac_le) simp_all
  then show ?thesis
    by (simp add: cdf_term_def power_divide)
qed

lemma cdf_term_tendsto_0:
  assumes "0 \<le> y" and "y \<le> 1"
  shows "cdf_term y \<longlonglongrightarrow> 0"
proof (rule tendsto_sandwich)
  show "(\<lambda>n. 0 :: real) \<longlonglongrightarrow> 0"
    by simp
  show "(\<lambda>n. (1 / 2 :: real) ^ n) \<longlonglongrightarrow> 0"
    by (intro LIMSEQ_realpow_zero) simp_all
  show "\<forall>\<^sub>F n in sequentially. 0 \<le> cdf_term y n"
    using assms by (simp add: cdf_term_nonneg)
  show "\<forall>\<^sub>F n in sequentially. cdf_term y n \<le> (1 / 2) ^ n"
    using assms by (simp add: cdf_term_le_half_power)
qed

lemma cdf_series_summable:
  assumes "0 \<le> y" and "y \<le> 1"
  shows "summable (\<lambda>n. (- 1) ^ n * cdf_term y n)"
  using assms
  by (intro summable_Leibniz'(1) cdf_term_tendsto_0 cdf_term_nonneg cdf_term_decreasing)

lemma cdf_series_lower:
  assumes "0 \<le> y" and "y \<le> 1"
  shows "y - y ^ 3 / 6 + y ^ 5 / 40 - y ^ 7 / 336 \<le> (\<Sum>n. (- 1) ^ n * cdf_term y n)"
proof -
  have "(\<Sum>i<2 * 2. (- 1) ^ i * cdf_term y i) \<le> (\<Sum>n. (- 1) ^ n * cdf_term y n)"
    using assms
    by (intro summable_Leibniz'(2) cdf_term_tendsto_0 cdf_term_nonneg cdf_term_decreasing)
  then show ?thesis
    by (simp add: lessThan_Suc eval_nat_numeral cdf_term_def)
qed

lemma cdf_series_upper:
  assumes "0 \<le> y" and "y \<le> 1"
  shows "(\<Sum>n. (- 1) ^ n * cdf_term y n) \<le> y - y ^ 3 / 6 + y ^ 5 / 40 - y ^ 7 / 336 + y ^ 9 / 3456"
proof -
  have "(\<Sum>n. (- 1) ^ n * cdf_term y n) \<le> (\<Sum>i<2 * 2 + 1. (- 1) ^ i * cdf_term y i)"
    using assms
    by (intro summable_Leibniz'(4) cdf_term_tendsto_0 cdf_term_nonneg cdf_term_decreasing)
  then show ?thesis
    by (simp add: lessThan_Suc eval_nat_numeral cdf_term_def)
qed

lemma std_normal_cdf_minus:
  assumes "0 \<le> y" and "y \<le> 1"
  shows "std_normal_cdf (- y) = 1 / 2 - (\<Sum>n. (- 1) ^ n * cdf_term y n) / sqrt (2 * pi)"
proof -
  have "cdf_term (- y) n = - cdf_term y n" for n
    by (simp add: cdf_term_def)
  then have "(\<Sum>n. (- 1) ^ n * cdf_term (- y) n) = (\<Sum>n. - ((- 1) ^ n * cdf_term y n))"
    by simp
  also have "\<dots> = - (\<Sum>n. (- 1) ^ n * cdf_term y n)"
    by (rule suminf_minus [OF cdf_series_summable [OF assms]])
  finally show ?thesis
    by (simp add: std_normal_cdf_def)
qed

lemma sqrt_two_pi_lower: "2506627 / 10 ^ 6 \<le> sqrt (2 * pi)"
proof (rule real_le_rsqrt)
  have "(2506627 / 10 ^ 6 :: real)\<^sup>2 \<le> 2 * (314159 / 100000)"
    by (simp add: power2_eq_square)
  also have "\<dots> \<le> 2 * pi"
    using pi_lower by simp
  finally show "(2506627 / 10 ^ 6)\<^sup>2 \<le> 2 * pi" .
qed

lemma sqrt_two_pi_upper: "sqrt (2 * pi) \<le> 2506632 / 10 ^ 6"
proof (rule real_le_lsqrt)
  have "2 * pi \<le> 2 * (31416 / 10000)"
    using pi_upper by simp
  also have "\<dots> \<le> (2506632 / 10 ^ 6 :: real)\<^sup>2"
    by (simp add: power2_eq_square)
  finally show "2 * pi \<le> (2506632 / 10 ^ 6)\<^sup>2" .
qed simp

lemma std_normal_cdf_minus_lower:
  assumes "0 \<le> lo" and "lo \<le> y" and "y \<le> hi" and "hi \<le> 1"
  shows "1 / 2 - (hi - lo ^ 3 / 6 + hi ^ 5 / 40 - lo ^ 7 / 336 + hi ^ 9 / 3456) / (2506627 / 10 ^ 6)
           \<le> std_normal_cdf (- y)"
proof -
  let ?S = "\<Sum>n. (- 1) ^ n * cdf_term y n"
  let ?U = "hi - lo ^ 3 / 6 + hi ^ 5 / 40 - lo ^ 7 / 336 + hi ^ 9 / 3456"
  have y: "0 \<le> y" "y \<le> 1"
    using assms by linarith+
  have p3: "lo ^ 3 \<le> y ^ 3" and p7: "lo ^ 7 \<le> y ^ 7"
    using assms by (simp_all add: power_mono)
  have p5: "y ^ 5 \<le> hi ^ 5" and p9: "y ^ 9 \<le> hi ^ 9"
    using assms y by (simp_all add: power_mono)
  have "?S \<le> y - y ^ 3 / 6 + y ^ 5 / 40 - y ^ 7 / 336 + y ^ 9 / 3456"
    by (rule cdf_series_upper [OF y])
  also have "\<dots> \<le> ?U"
    using assms(3) p3 p5 p7 p9 by linarith
  finally have SU: "?S \<le> ?U" .
  have S0: "0 \<le> ?S"
  proof -
    have "y ^ 3 \<le> y ^ 1"
      using y by (intro power_decreasing) simp_all
    then have "0 \<le> y - y ^ 3 / 6"
      using y by simp
    moreover have "y ^ 7 \<le> y ^ 5" and "0 \<le> y ^ 5"
      using y by (simp_all add: power_decreasing)
    then have "0 \<le> y ^ 5 / 40 - y ^ 7 / 336"
      by linarith
    ultimately show ?thesis
      using cdf_series_lower [OF y] by linarith
  qed
  have "?S / sqrt (2 * pi) \<le> ?U / (2506627 / 10 ^ 6)"
    using SU S0 sqrt_two_pi_lower by (intro frac_le) simp_all
  then show ?thesis
    unfolding std_normal_cdf_minus [OF y] by linarith
qed

lemma std_normal_cdf_minus_upper:
  assumes "0 \<le> lo" and "lo \<le> y" and "y \<le> hi" and "hi \<le> 1"
    and "0 \<le> lo - hi ^ 3 / 6 + lo ^ 5 / 40 - hi ^ 7 / 336"
  shows "std_normal_cdf (- y)
           \<le> 1 / 2 - (lo - hi ^ 3 / 6 + lo ^ 5 / 40 - hi ^ 7 / 336) / (2506632 / 10 ^ 6)"
proof -
  let ?S = "\<Sum>n. (- 1) ^ n * cdf_term y n"
  let ?L = "lo - hi ^ 3 / 6 + lo ^ 5 / 40 - hi ^ 7 / 336"
  have y: "0 \<le> y" "y \<le> 1"
    using assms by linarith+
  have p3: "y ^ 3 \<le> hi ^ 3" and p7: "y ^ 7 \<le> hi ^ 7"
    using assms y by (simp_all add: power_mono)
  have p5: "lo ^ 5 \<le> y ^ 5"
    using assms by (simp_all add: power_mono)
  have "?L \<le> y - y ^ 3 / 6 + y ^ 5 / 40 - y ^ 7 / 336"
    using assms(2) p3 p5 p7 by linarith
  also have "\<dots> \<le> ?S"
    by (rule cdf_series_lower [OF y])
  finally have LS: "?L \<le> ?S" .
  have "0 < sqrt (2 * pi)"
    by simp
  then have "?L / (2506632 / 10 ^ 6) \<le> ?S / sqrt (2 * pi)"
    using LS assms(5) sqrt_two_pi_upper by (intro frac_le) simp_all
  then show ?thesis
    unfolding std_normal_cdf_minus [OF y] by linarith
qed

lemma call_notebook_args:
  "call norm_cdf (PyFloat 100) (3 / 100) (4 / 10) (1 / 4) (PyFloat 105) =
     Inr (norm_cdf (- (5 * ln (21 / 20) - 11 / 80)) * 100
          - norm_cdf (- (5 * ln (21 / 20) - 11 / 80 + 1 / 5)) * 105 * exp (- (3 / 400)))"
proof -
  have "ln (20 / 21 :: real) = - ln (21 / 20)"
    by (simp add: ln_div)
  then show ?thesis
    by (simp add: call_def math_sqrt_quarter float_div_def py_div_def math_log_def to_float_def
        power2_eq_square Let_def algebra_simps)
qed

lemma d1_range:
  "1064505 / 10 ^ 7 \<le> 5 * ln (21 / 20 :: real) - 11 / 80
   \<and> 5 * ln (21 / 20 :: real) - 11 / 80 \<le> 106451 / 10 ^ 6"
  using ln_21_20_lower ln_21_20_upper by simp

lemma cdf_d1_bounds:
  "457612 / 10 ^ 6 \<le> std_normal_cdf (- (5 * ln (21 / 20) - 11 / 80))
   \<and> std_normal_cdf (- (5 * ln (21 / 20) - 11 / 80)) \<le> 457613 / 10 ^ 6"
proof
  let ?y = "5 * ln (21 / 20 :: real) - 11 / 80"
  have lo: "1064505 / 10 ^ 7 \<le> ?y" and hi: "?y \<le> 106451 / 10 ^ 6"
    using d1_range by simp_all
  show "457612 / 10 ^ 6 \<le> std_normal_cdf (- ?y)"
    by (rule order_trans [OF _ std_normal_cdf_minus_lower [OF _ lo hi]])
      (simp_all add: power_divide)
  show "std_normal_cdf (- ?y) \<le> 457613 / 10 ^ 6"
    by (rule order_trans [OF std_normal_cdf_minus_upper [OF _ lo hi]])
      (simp_all add: power_divide)
qed

lemma cdf_d2_bounds:
  "379630 / 10 ^ 6 \<le> std_normal_cdf (- (5 * ln (21 / 20) - 11 / 80 + 1 / 5))
   \<and> std_normal_cdf (- (5 * ln (21 / 20) - 11 / 80 + 1 / 5)) \<le> 379632 / 10 ^ 6"
proof
  let ?y = "5 * ln (21 / 20 :: real) - 11 / 80 + 1 / 5"
  have lo: "3064505 / 10 ^ 7 \<le> ?y" and hi: "?y \<le> 306451 / 10 ^ 6"
    using d1_range by simp_all
  show "379630 / 10 ^ 6 \<le> std_normal_cdf (- ?y)"
    by (rule order_trans [OF _ std_normal_cdf_minus_lower [OF _ lo hi]])
      (simp_all add: power_divide)
  show "std_normal_cdf (- ?y) \<le> 379632 / 10 ^ 6"
    by (rule order_trans [OF std_normal_cdf_minus_upper [OF _ lo hi]])
      (simp_all add: power_divide)
qed

text \<open>
  C6. The notebook's call of the closed-form valuator, with spot 100, rate 0.03,
  volatility 0.4, expiry 0.25 and strike 105 (spot and strike as floats), returns a value
  within 0.001 of 6.1979.
\<close>

theorem call_notebook_value:
  "\<exists>v. call std_normal_cdf (PyFloat 100) (3 / 100) (4 / 10) (1 / 4) (PyFloat 105) = Inr v
       \<and> \<bar>v - 61979 / 10000\<bar> \<le> 1 / 1000"
proof -
  let ?A = "std_normal_cdf (- (5 * ln (21 / 20) - 11 / 80))"
  let ?B = "std_normal_cdf (- (5 * ln (21 / 20) - 11 / 80 + 1 / 5))"
  let ?E = "exp (- (3 / 400) :: real)"
  have A: "457612 / 10 ^ 6 \<le> ?A" "?A \<le> 457613 / 10 ^ 6"
    using cdf_d1_bounds by simp_all
  have B: "379630 / 10 ^ 6 \<le> ?B" "?B \<le> 379632 / 10 ^ 6"
    using cdf_d2_bounds by simp_all
  have E: "99252805 / 10 ^ 8 \<le> ?E" "?E \<le> 99252806 / 10 ^ 8"
    using exp_discount_bounds by simp_all
  have "?B * ?E \<le> (379632 / 10 ^ 6) * (99252806 / 10 ^ 8)"
    using B E by (intro mult_mono) simp_all
  then have lower: "61969 / 10000 \<le> ?A * 100 - ?B * 105 * ?E"
    using A(1) by simp
  have "(379630 / 10 ^ 6) * (99252805 / 10 ^ 8) \<le> ?B * ?E"
    using B E by (intro mult_mono) simp_all
  then have upper: "?A * 100 - ?B * 105 * ?E \<le> 61989 / 10000"
    using A(2) by simp
  from lower upper have "\<bar>?A * 100 - ?B * 105 * ?E - 61979 / 10000\<bar> \<le> 1 / 1000"
    by linarith
  then show ?thesis
    unfolding call_notebook_args by blast
qed


end
